theory Spec2Isabelle
  imports Main
begin

section \<open>Data model of the in-page content editor (src/index.tsx)\<close>

text \<open>
  The editor lives in three pieces of React state of the component \<open>App\<close>
  (\<open>isEditMode\<close>, \<open>content\<close>, \<open>editingItem\<close>, lines 1101-1103) and in the local state
  \<open>value\<close> of the component \<open>EditModal\<close> (line 57). \<open>EditModal\<close> is rendered by \<open>App\<close>
  unconditionally (line 1137), so its local state lives as long as the page.

  \<open>content\<close> is a plain object, created by \<open>{}\<close> (lines 1102, 1111) and by a spread into
  an object literal (line 1106). The map \<open>content\<close> of the model holds its own
  properties; the properties it inherits from \<open>Object.prototype\<close> come in where the
  object is indexed, in \<open>content_at\<close>.
  The field names \<open>id\<close>, \<open>value\<close> and \<open>type\<close> of \<open>EditItem\<close> carry the prefix \<open>item_\<close>, and
  the modal's \<open>value\<close> is \<open>modal_value\<close>, because the plain names are taken in HOL.
\<close>

datatype EditType = TextType | ImageType

text \<open>
  The source's types say \<open>string\<close> for every value of the store and of the editor, and
  nothing checks them when the page runs. A value is a string, or, read from the store
  under an inherited name, the member of \<open>Object.prototype\<close> of that name (a function;
  for \<open>__proto__\<close> the prototype itself), which is truthy and is not a string.
\<close>

datatype js_value = Str string | Inherited string

record EditItem =
  item_id :: string
  item_value :: js_value
  item_type :: EditType

text \<open>
  \<open>modal_deps\<close> holds the dependency array \<open>[initialValue, isOpen]\<close> of the effect of
  \<open>EditModal\<close> (lines 60-62) as of the last committed render, which React compares with
  the next one. \<open>readers\<close> holds the results of the \<open>FileReader\<close> objects created at
  line 67 whose \<open>onloadend\<close> has not fired yet; only reads that succeed are modelled,
  as the cast \<open>reader.result as string\<close> of line 69 assumes.
\<close>

record App =
  isEditMode :: bool
  content :: "string \<rightharpoonup> js_value"
  editingItem :: "EditItem option"
  modal_value :: js_value
  modal_deps :: "js_value \<times> bool"
  readers :: "string list"

definition DEFAULT_IMAGES_hero :: string where
  "DEFAULT_IMAGES_hero = ''https://loremflickr.com/1600/900/architect,man''"

definition DEFAULT_IMAGES_exterior :: string where
  "DEFAULT_IMAGES_exterior = ''https://loremflickr.com/1600/900/apartment,building''"

text \<open>
  The names of the properties of \<open>Object.prototype\<close>, as ECMAScript defines them.
\<close>

definition Object_prototype_keys :: "string list" where
  "Object_prototype_keys =
     [''constructor'', ''hasOwnProperty'', ''isPrototypeOf'', ''propertyIsEnumerable'',
      ''toLocaleString'', ''toString'', ''valueOf'', ''__proto__'',
      ''__defineGetter__'', ''__defineSetter__'', ''__lookupGetter__'', ''__lookupSetter__'']"

text \<open>
  \<open>content[id]\<close>: the object's own property if it has one, else the inherited one if the
  prototype has one, else \<open>undefined\<close>, here \<open>None\<close>.
\<close>

definition content_at :: "(string \<rightharpoonup> js_value) \<Rightarrow> string \<Rightarrow> js_value option" where
  "content_at c k =
     (case c k of
        Some v \<Rightarrow> Some v
      | None \<Rightarrow> if k \<in> set Object_prototype_keys then Some (Inherited k) else None)"

text \<open>
  JavaScript's \<open>a || b\<close>: \<open>undefined\<close> and the empty string are falsy, every other string
  and every function or object is truthy.
\<close>

definition js_or :: "js_value option \<Rightarrow> js_value \<Rightarrow> js_value" where
  "js_or a b = (case a of None \<Rightarrow> b | Some v \<Rightarrow> if v = Str [] then b else v)"

text \<open>
  The Content Store's read, as every reader writes it: \<open>content[id] || defaultText\<close>
  (line 177), \<open>content[id] || defaultSrc\<close> (line 213) and
  \<open>content['hero_img'] || DEFAULT_IMAGES.hero\<close> (lines 404 and 411). The default is a
  string at every call site.
\<close>

definition get_content :: "(string \<rightharpoonup> js_value) \<Rightarrow> string \<Rightarrow> string \<Rightarrow> js_value" where
  "get_content c k d = js_or (content_at c k) (Str d)"

section \<open>Operations of \<open>App\<close> (lines 1105-1143)\<close>

definition init_App :: App where
  "init_App = \<lparr>isEditMode = False, content = Map.empty, editingItem = None,
     modal_value = Str [], modal_deps = (Str [], False), readers = []\<rparr>"

definition toggleEditMode :: "App \<Rightarrow> App" where
  "toggleEditMode s = s\<lparr>isEditMode := \<not> isEditMode s\<rparr>"

definition updateContent :: "string \<Rightarrow> js_value \<Rightarrow> App \<Rightarrow> App" where
  "updateContent k v s = s\<lparr>content := (content s)(k \<mapsto> v)\<rparr>"

text \<open>The first argument is the operator's answer to \<open>window.confirm\<close>.\<close>

definition resetContent :: "bool \<Rightarrow> App \<Rightarrow> App" where
  "resetContent confirmed s = (if confirmed then s\<lparr>content := Map.empty\<rparr> else s)"

definition openEditor :: "string \<Rightarrow> js_value \<Rightarrow> EditType \<Rightarrow> App \<Rightarrow> App" where
  "openEditor i initial t s =
     s\<lparr>editingItem := Some \<lparr>item_id = i, item_value = initial, item_type = t\<rparr>\<rparr>"

definition handleSaveEdit :: "js_value \<Rightarrow> App \<Rightarrow> App" where
  "handleSaveEdit v s =
     (case editingItem s of
        None \<Rightarrow> s
      | Some e \<Rightarrow> (updateContent (item_id e) v s)\<lparr>editingItem := None\<rparr>)"

definition onClose :: "App \<Rightarrow> App" where
  "onClose s = s\<lparr>editingItem := None\<rparr>"

text \<open>The props that \<open>App\<close> hands to \<open>EditModal\<close> (lines 1138, 1141, 1142).\<close>

definition isOpen :: "App \<Rightarrow> bool" where
  "isOpen s = (editingItem s \<noteq> None)"

definition initialValue :: "App \<Rightarrow> js_value" where
  "initialValue s = js_or (map_option item_value (editingItem s)) (Str [])"

definition modal_type :: "App \<Rightarrow> EditType" where
  "modal_type s = (case editingItem s of None \<Rightarrow> TextType | Some e \<Rightarrow> item_type e)"

section \<open>\<open>EditModal\<close> (lines 44-161)\<close>

definition setValue :: "js_value \<Rightarrow> App \<Rightarrow> App" where
  "setValue v s = s\<lparr>modal_value := v\<rparr>"

text \<open>
  The effect of lines 60-62, run after a render: when \<open>initialValue\<close> or \<open>isOpen\<close> differs
  from the last render's, the scratch value is set to \<open>initialValue\<close>.
\<close>

definition useEffect_reseed :: "App \<Rightarrow> App" where
  "useEffect_reseed s =
     (let deps = (initialValue s, isOpen s)
      in if deps = modal_deps s then s
         else (setValue (initialValue s) s)\<lparr>modal_deps := deps\<rparr>)"

text \<open>
  \<open>handleFileChange\<close> (lines 64-73): with a file chosen, a reader is started; nothing
  else changes until its \<open>onloadend\<close> fires. The argument is the data URL the read
  will produce, or \<open>None\<close> when \<open>e.target.files\<close> holds no file.
\<close>

definition handleFileChange :: "string option \<Rightarrow> App \<Rightarrow> App" where
  "handleFileChange file s =
     (case file of None \<Rightarrow> s | Some r \<Rightarrow> s\<lparr>readers := readers s @ [r]\<rparr>)"

text \<open>
  \<open>reader.onloadend\<close> (lines 68-70) of the \<open>n\<close>-th reader in flight: \<open>setValue\<close> with its
  result, whatever the state of the dialog.
\<close>

definition onloadend :: "nat \<Rightarrow> App \<Rightarrow> App" where
  "onloadend n s =
     (if n < length (readers s)
      then (setValue (Str (readers s ! n)) s)\<lparr>readers := take n (readers s) @ drop (Suc n) (readers s)\<rparr>
      else s)"

section \<open>Click targets of the presentation layer\<close>

text \<open>\<open>EditableText.handleClick\<close> (lines 179-183) with the props \<open>id\<close> and \<open>defaultText\<close>.\<close>

definition EditableText_handleClick :: "string \<Rightarrow> string \<Rightarrow> App \<Rightarrow> App" where
  "EditableText_handleClick i defaultText s =
     (if \<not> isEditMode s then s
      else openEditor i (get_content (content s) i defaultText) TextType s)"

text \<open>\<open>EditableImage.handleClick\<close> (lines 215-219) with the props \<open>id\<close> and \<open>defaultSrc\<close>.\<close>

definition EditableImage_handleClick :: "string \<Rightarrow> string \<Rightarrow> App \<Rightarrow> App" where
  "EditableImage_handleClick i defaultSrc s =
     (if \<not> isEditMode s then s
      else openEditor i (get_content (content s) i defaultSrc) ImageType s)"

text \<open>
  The hero section's button (lines 409-418), which is rendered in edit mode only.
\<close>

definition hero_button_onClick :: "App \<Rightarrow> App" where
  "hero_button_onClick s =
     (if isEditMode s
      then openEditor ''hero_img'' (get_content (content s) ''hero_img'' DEFAULT_IMAGES_hero) ImageType s
      else s)"

section \<open>Events\<close>

text \<open>
  What can happen to the page: the clicks and key presses of the operator, the end of a
  file read, and calls of the two functions that \<open>EditContext\<close> hands to every consumer
  (\<open>openEditor\<close>, \<open>updateContent\<close>). The controls of the dialog exist only while it is
  open (line 75); its file input only for an image (line 96); the reset button only
  in edit mode (line 1066). The overlay of the dialog (line 78) has no click handler
  and the file registers no key handler, so a click on the overlay and the Escape key
  change nothing. The overlay stops the pointer, not the keyboard, and the functions of
  the context can be called at any time: the events of the page are not restricted
  while the dialog is open. What the page draws is not modelled; an \<open>EditableText\<close>
  whose resolved value is not a string throws while it renders (line 191), which ends
  the page.
\<close>

datatype event =
    ToggleClick
  | ResetClick bool
  | TextClick string string
  | ImageClick string string
  | HeroClick
  | CallOpenEditor string js_value EditType
  | CallUpdateContent string js_value
  | Typing string
  | FileChange "string option"
  | LoadEnd nat
  | SaveClick
  | CancelClick
  | CloseClick
  | OverlayClick
  | EscapeKey

fun handler :: "event \<Rightarrow> App \<Rightarrow> App" where
  "handler ToggleClick s = toggleEditMode s"
| "handler (ResetClick confirmed) s = (if isEditMode s then resetContent confirmed s else s)"
| "handler (TextClick i d) s = EditableText_handleClick i d s"
| "handler (ImageClick i d) s = EditableImage_handleClick i d s"
| "handler HeroClick s = hero_button_onClick s"
| "handler (CallOpenEditor i v t) s = openEditor i v t s"
| "handler (CallUpdateContent k v) s = updateContent k v s"
| "handler (Typing v) s = (if isOpen s then setValue (Str v) s else s)"
| "handler (FileChange file) s =
     (if isOpen s \<and> modal_type s = ImageType then handleFileChange file s else s)"
| "handler (LoadEnd n) s = onloadend n s"
| "handler SaveClick s = (if isOpen s then handleSaveEdit (modal_value s) s else s)"
| "handler CancelClick s = (if isOpen s then onClose s else s)"
| "handler CloseClick s = (if isOpen s then onClose s else s)"
| "handler OverlayClick s = s"
| "handler EscapeKey s = s"

text \<open>One event: its handler, then the render it causes and the effect after it.\<close>

definition dispatch :: "event \<Rightarrow> App \<Rightarrow> App" where
  "dispatch ev s = useEffect_reseed (handler ev s)"

fun run :: "event list \<Rightarrow> App \<Rightarrow> App" where
  "run [] s = s"
| "run (ev # evs) s = run evs (dispatch ev s)"

text \<open>
  Whether the event, arriving in state \<open>s\<close>, is a \<open>set(k, *)\<close> or a full reset of the
  Content Store.
\<close>

fun overwrites :: "string \<Rightarrow> App \<Rightarrow> event \<Rightarrow> bool" where
  "overwrites k s (ResetClick confirmed) = (isEditMode s \<and> confirmed)"
| "overwrites k s (CallUpdateContent k' v) = (k' = k)"
| "overwrites k s SaveClick = (map_option item_id (editingItem s) = Some k)"
| "overwrites k s ev = False"

fun undisturbed :: "string \<Rightarrow> App \<Rightarrow> event list \<Rightarrow> bool" where
  "undisturbed k s [] = True"
| "undisturbed k s (ev # evs) = (\<not> overwrites k s ev \<and> undisturbed k (dispatch ev s) evs)"

text \<open>A state as a render leaves it: the effect's dependencies are those of the state.\<close>

definition rendered :: "App \<Rightarrow> bool" where
  "rendered s = (modal_deps s = (initialValue s, isOpen s))"

section \<open>Basic facts\<close>

lemma useEffect_reseed_content [simp]: "content (useEffect_reseed s) = content s"
  by (simp add: useEffect_reseed_def setValue_def Let_def)

lemma useEffect_reseed_editingItem [simp]: "editingItem (useEffect_reseed s) = editingItem s"
  by (simp add: useEffect_reseed_def setValue_def Let_def)

lemma useEffect_reseed_isEditMode [simp]: "isEditMode (useEffect_reseed s) = isEditMode s"
  by (simp add: useEffect_reseed_def setValue_def Let_def)

lemma handler_content_kept:
  "\<not> overwrites k s ev \<Longrightarrow> content (handler ev s) k = content s k"
  by (cases ev)
     (auto simp: toggleEditMode_def resetContent_def EditableText_handleClick_def
        EditableImage_handleClick_def hero_button_onClick_def openEditor_def
        updateContent_def setValue_def handleFileChange_def onloadend_def
        handleSaveEdit_def onClose_def split: option.splits)

lemma run_content_kept:
  "undisturbed k s evs \<Longrightarrow> content (run evs s) k = content s k"
proof (induction evs arbitrary: s)
  case Nil
  show ?case by simp
next
  case (Cons ev evs)
  from Cons.prems have quiet: "\<not> overwrites k s ev"
    and rest: "undisturbed k (dispatch ev s) evs" by simp_all
  have "content (run (ev # evs) s) k = content (dispatch ev s) k"
    using Cons.IH [OF rest] by simp
  also have "\<dots> = content s k"
    using handler_content_kept [OF quiet] by (simp add: dispatch_def)
  finally show ?case .
qed

lemma run_append: "run (xs @ ys) s = run ys (run xs s)"
  by (induction xs arbitrary: s) simp_all

lemmas App_defs =
  init_App_def toggleEditMode_def updateContent_def resetContent_def openEditor_def
  handleSaveEdit_def onClose_def isOpen_def initialValue_def modal_type_def setValue_def
  useEffect_reseed_def handleFileChange_def onloadend_def EditableText_handleClick_def
  EditableImage_handleClick_def hero_button_onClick_def dispatch_def get_content_def
  content_at_def Object_prototype_keys_def js_or_def DEFAULT_IMAGES_hero_def
  DEFAULT_IMAGES_exterior_def rendered_def

lemma typing_keeps:
  "content (run (map Typing vs) s) = content s \<and> editingItem (run (map Typing vs) s) = editingItem s"
  by (induction vs arbitrary: s) (simp_all add: dispatch_def setValue_def)

lemma open_calls_keep_content:
  "content (run (map (\<lambda>(i, v, t). CallOpenEditor i v t) calls) s) = content s"
  by (induction calls arbitrary: s) (simp_all add: dispatch_def openEditor_def split: prod.splits)

lemma dispatch_rendered: "rendered (dispatch ev s)"
  by (simp add: dispatch_def rendered_def useEffect_reseed_def Let_def initialValue_def
        isOpen_def setValue_def)


text \<open>
  Opened from the closed state by a click, the dialog shows the slot's resolved value.
\<close>

lemma click_from_closed_seeds:
  assumes "rendered s" and "\<not> isOpen s" and "isEditMode s"
  shows "modal_value (dispatch (TextClick k d) s) = get_content (content s) k d"
    and "modal_value (dispatch (ImageClick k d) s) = get_content (content s) k d"
proof -
  from assms have none: "editingItem s = None" and deps: "modal_deps s = (Str [], False)"
    by (simp_all add: rendered_def isOpen_def initialValue_def js_or_def)
  show "modal_value (dispatch (TextClick k d) s) = get_content (content s) k d"
    using assms(3)
    by (simp add: dispatch_def EditableText_handleClick_def openEditor_def useEffect_reseed_def
          Let_def initialValue_def isOpen_def setValue_def js_or_def none deps)
  show "modal_value (dispatch (ImageClick k d) s) = get_content (content s) k d"
    using assms(3)
    by (simp add: dispatch_def EditableImage_handleClick_def openEditor_def useEffect_reseed_def
          Let_def initialValue_def isOpen_def setValue_def js_or_def none deps)
qed

section \<open>Content Store\<close>

text \<open>
  Claim C8, as stated: for every key that has no override, the read returns exactly the
  default supplied at the call site. The store is a plain object: under a name that it
  inherits from \<open>Object.prototype\<close>, such as \<open>constructor\<close>, the read finds the inherited
  member, which is truthy, and returns it in place of the default.
\<close>

theorem get_inherited_key:
  "content init_App ''constructor'' = None
   \<and> get_content (content init_App) ''constructor'' DEFAULT_IMAGES_exterior
       \<noteq> Str DEFAULT_IMAGES_exterior"
  by (simp add: init_App_def get_content_def content_at_def js_or_def Object_prototype_keys_def)

text \<open>
  Claim C8, amended. For every key that has no override and is not the name of a
  property of \<open>Object.prototype\<close>, the read returns exactly the default supplied at the
  call site. Text slots and image slots read through the same expression,
  \<open>get_content\<close>, and in edit mode a click on either hands that default to the editor.
\<close>

theorem get_without_override:
  assumes "content s k = None" and "k \<notin> set Object_prototype_keys"
  shows "get_content (content s) k d = Str d
    \<and> (isEditMode s \<longrightarrow>
         map_option item_value (editingItem (EditableText_handleClick k d s)) = Some (Str d)
         \<and> map_option item_value (editingItem (EditableImage_handleClick k d s)) = Some (Str d))"
  using assms
  by (simp add: get_content_def content_at_def js_or_def EditableText_handleClick_def
        EditableImage_handleClick_def openEditor_def)

theorem get_without_override_witness:
  "content (toggleEditMode init_App) ''exterior_img'' = None
   \<and> ''exterior_img'' \<notin> set Object_prototype_keys
   \<and> isEditMode (toggleEditMode init_App)
   \<and> get_content (content (toggleEditMode init_App)) ''exterior_img'' DEFAULT_IMAGES_exterior
       = Str DEFAULT_IMAGES_exterior
   \<and> map_option item_value
        (editingItem (EditableImage_handleClick ''exterior_img'' DEFAULT_IMAGES_exterior
           (toggleEditMode init_App))) = Some (Str DEFAULT_IMAGES_exterior)"
proof -
  have none: "content (toggleEditMode init_App) ''exterior_img'' = None"
    and plain: "''exterior_img'' \<notin> set Object_prototype_keys"
    and mode: "isEditMode (toggleEditMode init_App)"
    by (simp_all add: init_App_def toggleEditMode_def Object_prototype_keys_def)
  show ?thesis
    using none plain mode get_without_override [OF none plain, of DEFAULT_IMAGES_exterior]
    by simp
qed

text \<open>
  Claim C1, as stated: after \<open>set(k, v)\<close> the read of \<open>k\<close> returns exactly \<open>v\<close>, for every
  string \<open>v\<close>, the empty string included. The readers fall back with \<open>||\<close>, for which the
  empty string is falsy: an empty override reads as the default.
\<close>

theorem set_empty_reads_default:
  "get_content (content (updateContent ''brand_main'' (Str []) init_App)) ''brand_main'' ''CENTUM''
     \<noteq> Str []"
  by (simp add: get_content_def content_at_def js_or_def updateContent_def init_App_def)

text \<open>
  Claim C1, amended. \<open>set(k, v)\<close> stores every value \<open>v\<close> unchanged, and the store keeps
  it through every sequence of events with no later \<open>set(k, *)\<close> and no confirmed reset.
  The read of \<open>k\<close> returns \<open>v\<close> when \<open>v\<close> is not the empty string, and the default when it
  is.
\<close>

theorem set_then_get:
  assumes "undisturbed k (updateContent k v s) evs"
  shows "content (run evs (updateContent k v s)) k = Some v
    \<and> get_content (content (run evs (updateContent k v s))) k d = (if v = Str [] then Str d else v)"
proof -
  have stored: "content (run evs (updateContent k v s)) k = Some v"
    using run_content_kept [OF assms] by (simp add: updateContent_def)
  then show ?thesis
    by (simp add: get_content_def content_at_def js_or_def)
qed

theorem set_then_get_witness:
  "undisturbed ''brand_main'' (updateContent ''brand_main'' (Str ''ACME'') init_App)
     [ToggleClick, TextClick ''brand_sub'' ''SQUARE'', Typing ''ROUND'', SaveClick, ResetClick False]
   \<and> get_content (content (run
        [ToggleClick, TextClick ''brand_sub'' ''SQUARE'', Typing ''ROUND'', SaveClick, ResetClick False]
        (updateContent ''brand_main'' (Str ''ACME'') init_App))) ''brand_main'' ''CENTUM''
      = Str ''ACME''"
proof -
  have quiet: "undisturbed ''brand_main'' (updateContent ''brand_main'' (Str ''ACME'') init_App)
     [ToggleClick, TextClick ''brand_sub'' ''SQUARE'', Typing ''ROUND'', SaveClick, ResetClick False]"
    by (simp add: App_defs Let_def)
  show ?thesis
    using quiet set_then_get [OF quiet, of "''CENTUM''"] by simp
qed

text \<open>
  Claim C6, as stated: after a confirmed reset every previously overridden key reads as
  its default. An override under a name inherited from \<open>Object.prototype\<close> is removed
  like every other, and the read then finds the inherited member, not the default.
\<close>

theorem reset_inherited_key:
  "content (updateContent ''constructor'' (Str ''New Title'') init_App) ''constructor''
     = Some (Str ''New Title'')
   \<and> get_content (content (resetContent True
        (updateContent ''constructor'' (Str ''New Title'') init_App))) ''constructor'' ''CENTUM''
     \<noteq> Str ''CENTUM''"
  by (simp add: init_App_def updateContent_def resetContent_def get_content_def content_at_def
        js_or_def Object_prototype_keys_def)

text \<open>
  Claim C6, amended. The reset is gated on the operator's confirmation and is all or
  nothing: confirmed, it removes every override, so that every key that is not the name
  of a property of \<open>Object.prototype\<close> reads as its default; declined, it leaves the
  whole state as it was.
\<close>

theorem resetContent_all_or_nothing:
  "content (resetContent True s) = Map.empty
   \<and> (k \<notin> set Object_prototype_keys \<longrightarrow> get_content (content (resetContent True s)) k d = Str d)
   \<and> resetContent False s = s"
  by (simp add: resetContent_def get_content_def content_at_def js_or_def)

theorem resetContent_all_or_nothing_witness:
  "''hero_title'' \<notin> set Object_prototype_keys
   \<and> get_content (content (updateContent ''hero_title'' (Str ''New Title'') init_App))
        ''hero_title'' ''CENTUM'' = Str ''New Title''
   \<and> get_content (content (resetContent True
        (updateContent ''hero_title'' (Str ''New Title'') init_App))) ''hero_title'' ''CENTUM''
      = Str ''CENTUM''
   \<and> resetContent False (updateContent ''hero_title'' (Str ''New Title'') init_App)
      = updateContent ''hero_title'' (Str ''New Title'') init_App"
proof -
  have plain: "''hero_title'' \<notin> set Object_prototype_keys"
    by (simp add: Object_prototype_keys_def)
  have before: "get_content (content (updateContent ''hero_title'' (Str ''New Title'') init_App))
        ''hero_title'' ''CENTUM'' = Str ''New Title''"
    by (simp add: get_content_def content_at_def js_or_def updateContent_def)
  show ?thesis
    using plain before
      resetContent_all_or_nothing [of "updateContent ''hero_title'' (Str ''New Title'') init_App"
        "''hero_title''" "''CENTUM''"]
    by blast
qed

section \<open>Edit Session Controller\<close>

text \<open>
  Claim C10. A commit with no ActiveEdit is a no-op: the state, and with it the Content
  Store at every key and the absent ActiveEdit, is unchanged.
\<close>

theorem handleSaveEdit_without_item:
  "editingItem s = None \<Longrightarrow> handleSaveEdit v s = s"
  by (simp add: handleSaveEdit_def)

theorem handleSaveEdit_without_item_witness:
  "editingItem init_App = None \<and> handleSaveEdit (Str ''New Title'') init_App = init_App"
proof -
  have none: "editingItem init_App = None" by (simp add: init_App_def)
  show ?thesis using none handleSaveEdit_without_item [OF none, of "Str ''New Title''"] by simp
qed

text \<open>
  Claim C5. With an ActiveEdit for key \<open>k\<close>, the commit stores the value unchanged
  against \<open>k\<close>, touches no other key, and clears the ActiveEdit, so that no dialog is
  open. The Save button commits the scratch value as it stands.
\<close>

theorem handleSaveEdit_stores_verbatim:
  assumes "editingItem s = Some e"
  shows "content (handleSaveEdit v s) = (content s)(item_id e \<mapsto> v)
    \<and> editingItem (handleSaveEdit v s) = None
    \<and> \<not> isOpen (useEffect_reseed (handleSaveEdit v s))
    \<and> dispatch SaveClick s = useEffect_reseed (handleSaveEdit (modal_value s) s)"
  using assms
  by (simp add: handleSaveEdit_def updateContent_def isOpen_def dispatch_def)

theorem handleSaveEdit_stores_verbatim_witness:
  "editingItem (openEditor ''map_img'' (Str ''https://placehold.co/800x400'') ImageType init_App)
     = Some \<lparr>item_id = ''map_img'', item_value = Str ''https://placehold.co/800x400'',
          item_type = ImageType\<rparr>
   \<and> content (handleSaveEdit (Str ''not-a-url'')
        (openEditor ''map_img'' (Str ''https://placehold.co/800x400'') ImageType init_App)) ''map_img''
     = Some (Str ''not-a-url'')
   \<and> editingItem (handleSaveEdit (Str ''not-a-url'')
        (openEditor ''map_img'' (Str ''https://placehold.co/800x400'') ImageType init_App)) = None"
proof -
  have item: "editingItem (openEditor ''map_img'' (Str ''https://placehold.co/800x400'') ImageType init_App)
     = Some \<lparr>item_id = ''map_img'', item_value = Str ''https://placehold.co/800x400'',
          item_type = ImageType\<rparr>"
    by (simp add: openEditor_def)
  show ?thesis
    using item handleSaveEdit_stores_verbatim [OF item, of "Str ''not-a-url''"]
    by simp
qed

text \<open>
  Claim C2, as stated: with edit mode disabled, a call of \<open>openEditor\<close> leaves the session
  without an ActiveEdit, whoever calls it. \<open>openEditor\<close> has no guard: called in the
  initial state, where edit mode is off and nothing is being edited, it creates an
  ActiveEdit.
\<close>

theorem openEditor_unguarded:
  "\<not> isEditMode init_App \<and> editingItem init_App = None
   \<and> editingItem (openEditor ''brand_main'' (Str ''CENTUM'') TextType init_App) \<noteq> None"
  by (simp add: openEditor_def init_App_def)

text \<open>
  Claim C2, amended. The guard is in the click targets: with edit mode disabled, a
  click on an editable text, on an editable image or on the hero button leaves the
  state unchanged, so that it creates no ActiveEdit. \<open>openEditor\<close> itself sets the
  ActiveEdit whatever the edit mode.
\<close>

theorem click_guarded_by_edit_mode:
  assumes "\<not> isEditMode s"
  shows "EditableText_handleClick i d s = s
    \<and> EditableImage_handleClick i d s = s
    \<and> hero_button_onClick s = s
    \<and> editingItem (openEditor i v t s) = Some \<lparr>item_id = i, item_value = v, item_type = t\<rparr>"
  using assms
  by (simp add: EditableText_handleClick_def EditableImage_handleClick_def
        hero_button_onClick_def openEditor_def)

theorem click_guarded_by_edit_mode_witness:
  "\<not> isEditMode init_App
   \<and> EditableText_handleClick ''brand_main'' ''CENTUM'' init_App = init_App
   \<and> EditableImage_handleClick ''brand_main'' ''CENTUM'' init_App = init_App
   \<and> hero_button_onClick init_App = init_App"
proof -
  have off: "\<not> isEditMode init_App" by (simp add: init_App_def)
  show ?thesis
    using off click_guarded_by_edit_mode [OF off, of "''brand_main''" "''CENTUM''"]
    by simp
qed

text \<open>
  Claim C7. The state holds the ActiveEdit in one slot, \<open>editingItem\<close>, which is empty
  or holds one item: at most one ActiveEdit exists in every state. Opening a second
  editor replaces the first: after any number of calls of \<open>openEditor\<close> the ActiveEdit
  is exactly the item of the last call, and the Content Store is as it was before
  the first, so that every earlier edit was closed without saving.
\<close>

theorem openEditor_replaces:
  "editingItem (run (map (\<lambda>(i, v, t). CallOpenEditor i v t) (calls @ [(i, v, t)])) s)
     = Some \<lparr>item_id = i, item_value = v, item_type = t\<rparr>
   \<and> content (run (map (\<lambda>(i, v, t). CallOpenEditor i v t) (calls @ [(i, v, t)])) s) = content s
   \<and> card (set_option (editingItem (run evs s))) \<le> 1"
proof -
  have "editingItem (run (map (\<lambda>(i, v, t). CallOpenEditor i v t) (calls @ [(i, v, t)])) s)
     = Some \<lparr>item_id = i, item_value = v, item_type = t\<rparr>"
    by (simp add: run_append dispatch_def openEditor_def)
  moreover have "card (set_option (editingItem (run evs s))) \<le> 1"
    by (cases "editingItem (run evs s)") simp_all
  ultimately show ?thesis
    using open_calls_keep_content [of "calls @ [(i, v, t)]" s] by simp
qed

section \<open>Editor Dialog\<close>

text \<open>
  Claim C3, as stated: Cancel, the close button and any outside dismissal behave alike,
  clearing the ActiveEdit and leaving the Content Store unchanged. The dialog has no
  outside dismissal: after a click on the overlay the ActiveEdit is still there,
  where Cancel clears it.
\<close>

theorem overlay_click_keeps_dialog:
  "editingItem (run [ToggleClick, TextClick ''brand_main'' ''CENTUM'', Typing ''draft'', OverlayClick]
      init_App) \<noteq> None
   \<and> editingItem (run [ToggleClick, TextClick ''brand_main'' ''CENTUM'', Typing ''draft'', CancelClick]
      init_App) = None"
  by (simp add: App_defs Let_def)

text \<open>
  Claim C3, amended. For every open dialog and every sequence of changes of the scratch
  value, Cancel and the close button behave alike: they clear the ActiveEdit and
  leave the Content Store unchanged. A click on the overlay and the Escape key have no
  handler: they leave the dialog open, and the Content Store unchanged as well.
\<close>

theorem cancel_and_close_discard:
  assumes "isOpen s"
  shows "dispatch CancelClick (run (map Typing vs) s) = dispatch CloseClick (run (map Typing vs) s)
    \<and> editingItem (dispatch CancelClick (run (map Typing vs) s)) = None
    \<and> content (dispatch CancelClick (run (map Typing vs) s)) = content s
    \<and> isOpen (dispatch OverlayClick (run (map Typing vs) s))
    \<and> content (dispatch OverlayClick (run (map Typing vs) s)) = content s
    \<and> isOpen (dispatch EscapeKey (run (map Typing vs) s))
    \<and> content (dispatch EscapeKey (run (map Typing vs) s)) = content s"
proof -
  have still: "isOpen (run (map Typing vs) s)"
    using assms typing_keeps [of vs s] by (simp add: isOpen_def)
  then show ?thesis
    using typing_keeps [of vs s] by (simp add: dispatch_def onClose_def isOpen_def)
qed

theorem cancel_and_close_discard_witness:
  "isOpen (run [ToggleClick, TextClick ''brand_main'' ''CENTUM''] init_App)
   \<and> editingItem (dispatch CancelClick (run (map Typing [''C'', ''CE'', ''CEN''])
        (run [ToggleClick, TextClick ''brand_main'' ''CENTUM''] init_App))) = None
   \<and> content (dispatch CancelClick (run (map Typing [''C'', ''CE'', ''CEN''])
        (run [ToggleClick, TextClick ''brand_main'' ''CENTUM''] init_App)))
      = content (run [ToggleClick, TextClick ''brand_main'' ''CENTUM''] init_App)
   \<and> isOpen (dispatch OverlayClick (run (map Typing [''C'', ''CE'', ''CEN''])
        (run [ToggleClick, TextClick ''brand_main'' ''CENTUM''] init_App)))"
proof -
  have opened: "isOpen (run [ToggleClick, TextClick ''brand_main'' ''CENTUM''] init_App)"
    by (simp add: App_defs Let_def)
  show ?thesis
    using opened cancel_and_close_discard [OF opened, of "[''C'', ''CE'', ''CEN'']"]
    by blast
qed

text \<open>
  Claim C4: every time the dialog opens for a key, its scratch value is the key's
  current resolved value, also when a second editor is opened while one is open. The
  effect re-seeds the scratch value when \<open>initialValue\<close> or \<open>isOpen\<close> changes, not when
  the key does. With the dialog open on the hero image and the scratch value edited,
  the hero button opens the editor again: the scratch value stays the edited one, not
  the resolved value. Opened on \<open>exterior_img\<close> and edited, then opened by a call of
  \<open>openEditor\<close> on \<open>overview_img\<close>, which has the same default, the dialog for
  \<open>overview_img\<close> shows the input typed for \<open>exterior_img\<close>. By clicks and keys alone:
  with \<open>hero_img\<close> and \<open>exterior_img\<close> both saved as the same address, the dialog opened
  on \<open>exterior_img\<close> and edited, the hero button opens the dialog for \<open>hero_img\<close> with
  the input typed for \<open>exterior_img\<close>.
\<close>

theorem reopen_keeps_stale_scratch:
  "modal_value (run [ToggleClick, HeroClick, Typing ''draft'', HeroClick] init_App) = Str ''draft''
   \<and> get_content (content (run [ToggleClick, HeroClick, Typing ''draft'', HeroClick] init_App))
       ''hero_img'' DEFAULT_IMAGES_hero = Str DEFAULT_IMAGES_hero
   \<and> modal_value (run [ToggleClick, ImageClick ''exterior_img'' DEFAULT_IMAGES_exterior,
        Typing ''draft'',
        CallOpenEditor ''overview_img'' (Str DEFAULT_IMAGES_exterior) ImageType] init_App)
       = Str ''draft''
   \<and> map_option item_id (editingItem (run [ToggleClick,
        ImageClick ''exterior_img'' DEFAULT_IMAGES_exterior, Typing ''draft'',
        CallOpenEditor ''overview_img'' (Str DEFAULT_IMAGES_exterior) ImageType] init_App))
       = Some ''overview_img''
   \<and> modal_value (run [ToggleClick, HeroClick, Typing ''same.png'', SaveClick,
        ImageClick ''exterior_img'' DEFAULT_IMAGES_exterior, Typing ''same.png'', SaveClick,
        ImageClick ''exterior_img'' DEFAULT_IMAGES_exterior, Typing ''draft'', HeroClick] init_App)
       = Str ''draft''
   \<and> editingItem (run [ToggleClick, HeroClick, Typing ''same.png'', SaveClick,
        ImageClick ''exterior_img'' DEFAULT_IMAGES_exterior, Typing ''same.png'', SaveClick,
        ImageClick ''exterior_img'' DEFAULT_IMAGES_exterior, Typing ''draft'', HeroClick] init_App)
       = Some \<lparr>item_id = ''hero_img'', item_value = Str ''same.png'', item_type = ImageType\<rparr>"
  by (simp add: App_defs Let_def)




end
